theory Spec2Isabelle
  imports Complex_Main
begin

section \<open>Data model\<close>

text \<open>
  The recovery programs of \<^verbatim>\<open>desaster/financial.py\<close> and \<^verbatim>\<open>desaster/technical.py\<close>
  are Python generators run by a discrete-event scheduler. Each generator is modelled
  as a step function over a program counter: one step is the code executed between two
  \<^verbatim>\<open>yield\<close>s, started either by the yielded event firing or by an interruption
  thrown into the generator. Local variables that live across a \<^verbatim>\<open>yield\<close> are
  carried by the program counter. The objects a process reaches (its pools, containers,
  the entity and the entity's property) form the world; a step takes the world as it is
  at resumption, so other processes may have changed it in between.

  Python floats are idealised as real numbers; the infinite default budgets and loan
  limits are outside this numeric model, an unlimited staff is \<open>Unbounded\<close>.
\<close>

text \<open>
  One sentence appended to \<^verbatim>\<open>entity.story\<close>: the sentence template and the attribute
  values formatted into it (the entity's name and the structure type are left out).
  \<open>InsufficientMaterial\<close> carries the material word printed in the sentence.
\<close>

datatype story_line =
    InspectedLine "real option" real
  | AssessmentLine "real option"
  | PermitLine "real option"
  | InsufficientMaterial string
  | UnableToGetMoney
  | RepairedLine string "real option" real
  | GaveUpRebuild real
  | SubmittedNRA "real option"
  | ReceivedNRA real "real option"
  | PartialNRA real real "real option"
  | NoMoneyNRA
  | GaveUpNRA real
  | NoInsurance
  | SubmittedClaim "real option"
  | DeductibleGreater
  | ReceivedClaim real "real option"
  | GaveUpClaim real
  | SubmittedLoan "real option"
  | ReceivedLoan real "real option"
  | GaveUpLoan real
  | ProgramCompleted real real
  | OccupiedLine real

text \<open>\<^verbatim>\<open>structures.Building\<close>: the attributes the programs read or write.\<close>

record building =
  inspected :: bool
  permit :: bool
  assessment :: bool
  new_plinth :: bool
  new_walls :: bool
  new_roof :: bool
  plinth_time :: real
  walls_time :: real
  roof_time :: real
  finished_plinth :: real
  finished_walls :: real
  finished_roof :: real
  first_inst :: bool
  second_inst :: bool
  third_inst :: bool
  first_inst_time :: real
  second_inst_time :: real
  third_inst_time :: real
  plinth_value :: real
  wall_value :: real
  roof_value :: real
  damage_value :: real
  bvalue :: real

text \<open>
  \<^verbatim>\<open>Building.__init__\<close> (structures.py 46-85). The three stage valuations come from
  workbook tables read by \<^verbatim>\<open>setPlinthValue\<close>, \<^verbatim>\<open>setWallValue\<close> and \<^verbatim>\<open>setRoofValue\<close>;
  they are parameters here.
\<close>

definition Building_init :: "real \<Rightarrow> real \<Rightarrow> real \<Rightarrow> building" where
  "Building_init pv wv rv =
     \<lparr> inspected = False, permit = False, assessment = False,
       new_plinth = False, new_walls = False, new_roof = False,
       plinth_time = 0, walls_time = 0, roof_time = 0,
       finished_plinth = 0, finished_walls = 0, finished_roof = 0,
       first_inst = False, second_inst = False, third_inst = False,
       first_inst_time = 0, second_inst_time = 0, third_inst_time = 0,
       plinth_value = pv, wall_value = wv, roof_value = rv,
       damage_value = pv + wv + rv, bvalue = pv + wv + rv \<rparr>"

text \<open>
  \<^verbatim>\<open>entities.Owner\<close> (entities.py 80-112). Timestamps start as \<^verbatim>\<open>None\<close>;
  \<^verbatim>\<open>rebuild_put\<close> and \<^verbatim>\<open>rebuild_get\<close> are created by the repair process, so
  \<open>None\<close> there stands for a missing attribute. The owner's \<^verbatim>\<open>property\<close> is the
  \<open>property\<close> field of the world below.
\<close>

record entity =
  write_story :: bool
  story :: "story_line list"
  insurance :: real
  savings :: real
  inspection_put :: "real option"
  inspection_get :: "real option"
  claim_put :: "real option"
  claim_get :: "real option"
  claim_payout :: real
  assistance_put :: "real option"
  assistance_get :: "real option"
  assistance_request :: real
  assistance_payout :: real
  money_to_rebuild :: real
  loan_put :: "real option"
  loan_get :: "real option"
  loan_amount :: real
  permit_put :: "real option"
  permit_get :: "real option"
  assessment_put :: "real option"
  assessment_get :: "real option"
  rebuild_put :: "real option"
  rebuild_get :: "real option"
  debt :: real

definition Owner_init :: "bool \<Rightarrow> real \<Rightarrow> real \<Rightarrow> entity" where
  "Owner_init ws ins sav =
     \<lparr> write_story = ws, story = [],
       insurance = ins, savings = sav,
       inspection_put = None, inspection_get = None,
       claim_put = None, claim_get = None, claim_payout = 0,
       assistance_put = None, assistance_get = None,
       assistance_request = 0, assistance_payout = 0,
       money_to_rebuild = sav,
       loan_put = None, loan_get = None, loan_amount = 0,
       permit_put = None, permit_get = None,
       assessment_put = None, assessment_get = None,
       rebuild_put = None, rebuild_get = None,
       debt = 0 \<rparr>"

definition say :: "story_line \<Rightarrow> entity \<Rightarrow> entity" where
  \<comment> \<open>\<^verbatim>\<open>if entity.write_story: entity.story.append(...)\<close>\<close>
  "say l e = (if write_story e then e\<lparr>story := story e @ [l]\<rparr> else e)"

subsection \<open>Pools and containers\<close>

text \<open>
  Modelled from the spec: the pool and the container are \<^verbatim>\<open>simpy.Resource\<close> and
  \<^verbatim>\<open>simpy.Container\<close>, imported by the programs and not part of the sources. The
  pool follows section 4.2 (a request is granted at once while a slot is free, else
  queued; a release frees the slot and wakes the longest-waiting requester), the
  container section 4.3 (a withdrawal succeeds at once when the level covers the amount,
  else the caller waits). A request object is a token drawn from a counter.

  The specification does not describe the two constructors. They check their arguments
  as the library does: \<^verbatim>\<open>Resource\<close> raises \<^verbatim>\<open>ValueError\<close> for a capacity that is
  not positive, \<^verbatim>\<open>Container\<close> for an initial level below zero. The programs create
  their containers without a capacity, so a deposit never waits.
\<close>

datatype capacity = Slots int | Unbounded

fun has_room :: "nat \<Rightarrow> capacity \<Rightarrow> bool" where
  "has_room n (Slots c) = (int n < c)"
| "has_room n Unbounded = True"

fun positive_capacity :: "capacity \<Rightarrow> bool" where
  "positive_capacity (Slots c) = (0 < c)"
| "positive_capacity Unbounded = True"

record resource =
  slots :: capacity
  users :: "nat list"
  queue :: "nat list"
  fresh :: nat

record container =
  level :: real

datatype py_error = ValueError | AttributeError | UnboundLocalError | NameError
  | Interrupted real

definition Resource_init :: "capacity \<Rightarrow> py_error + resource" where
  "Resource_init c =
     (if positive_capacity c
      then Inr \<lparr> slots = c, users = [], queue = [], fresh = 0 \<rparr>
      else Inl ValueError)"

definition Container_init :: "real \<Rightarrow> py_error + container" where
  "Container_init init =
     (if init < 0 then Inl ValueError else Inr \<lparr> level = init \<rparr>)"

definition admit_head :: "resource \<Rightarrow> resource" where
  "admit_head r =
     (case queue r of
        [] \<Rightarrow> r
      | q # qs \<Rightarrow>
          if has_room (length (users r)) (slots r)
          then r\<lparr>users := users r @ [q], queue := qs\<rparr>
          else r)"

definition request :: "resource \<Rightarrow> nat \<times> resource" where
  "request r =
     (let t = fresh r
      in (t, admit_head (r\<lparr>queue := queue r @ [t], fresh := Suc t\<rparr>)))"

definition release :: "nat \<Rightarrow> resource \<Rightarrow> resource" where
  "release t r = admit_head (r\<lparr>users := remove1 t (users r)\<rparr>)"

definition count :: "resource \<Rightarrow> nat" where
  "count r = length (users r)"

text \<open>
  \<open>get\<close> returns the container and the amount still to be withdrawn: \<open>None\<close> when the
  withdrawal was done at once, \<open>Some a\<close> when the caller now waits on the container.
  \<open>get_granted\<close> is the withdrawal done when the wait ends. Every call in the programs
  passes a positive amount, so the library's rejection of other amounts is not modelled.
\<close>

definition get :: "real \<Rightarrow> container \<Rightarrow> container \<times> real option" where
  "get a c =
     (if a \<le> level c then (c\<lparr>level := level c - a\<rparr>, None)
      else (c, Some a))"

definition get_granted :: "real option \<Rightarrow> container \<Rightarrow> container" where
  "get_granted p c =
     (case p of
        None \<Rightarrow> c
      | Some a \<Rightarrow> c\<lparr>level := level c - a\<rparr>)"

definition put :: "real \<Rightarrow> container \<Rightarrow> container" where
  "put a c = c\<lparr>level := level c + a\<rparr>"

datatype signal = Fired | Interrupt real


section \<open>The world of one process\<close>

text \<open>
  \<open>staff\<close> and \<open>budget\<close> are the program's own pool and money container
  (\<^verbatim>\<open>self.staff\<close>, \<^verbatim>\<open>self.budget\<close>), \<open>skilled\<close> and \<open>stock\<close> the skilled-labour pool
  and the material containers handed to the repair program, \<open>ent\<close> the entity and
  \<open>property\<close> the building \<^verbatim>\<open>entity.property\<close>, which is also the \<^verbatim>\<open>structure\<close>
  argument of the technical processes.
\<close>

datatype material =
  Stone | Brick | Timber | Rebar | Cement | CGI | Sand | Aggregate | Unskilled

record world =
  staff :: resource
  budget :: container
  skilled :: resource
  stock :: "material \<Rightarrow> container"
  ent :: entity
  property :: building

section \<open>Financial programs (financial.py)\<close>

text \<open>
  \<^verbatim>\<open>FinancialRecoveryProgram.__init__\<close> (financial.py 20-39): the pool, then the
  container, then the duration sampler. \<^verbatim>\<open>random_duration_function\<close> belongs to
  \<^verbatim>\<open>desaster/io.py\<close>, which is not among the sources: whether it accepts the
  distribution is the parameter \<open>dist_ok\<close>. The subclasses' constructors call this one
  and then only store their extra arguments.
\<close>

definition FinancialRecoveryProgram_init ::
  "bool \<Rightarrow> capacity \<Rightarrow> real \<Rightarrow> py_error + (resource \<times> container)" where
  "FinancialRecoveryProgram_init dist_ok staff_arg budget_arg =
     (case Resource_init staff_arg of
        Inl e \<Rightarrow> Inl e
      | Inr r \<Rightarrow>
          (case Container_init budget_arg of
             Inl e \<Rightarrow> Inl e
           | Inr c \<Rightarrow> if dist_ok then Inr (r, c) else Inl ValueError))"

subsection \<open>FinancialRecoveryProgram.process (financial.py 41-84)\<close>

text \<open>
  The example process of the base class. \<open>frp_entity\<close> tells whether an entity was
  passed; the last statement reads \<^verbatim>\<open>entity.write_story\<close> before it compares the
  entity with \<^verbatim>\<open>None\<close>.
\<close>

datatype frp_pc =
    F_Start
  | F_Request nat
  | F_Timeout nat real
  | F_Get "real option"
  | F_Put
  | F_Done
  | F_Raised py_error

record frp_program =
  frp_duration :: real
  frp_entity :: bool

fun FinancialRecoveryProgram_step ::
  "frp_program \<Rightarrow> real \<Rightarrow> signal \<Rightarrow> frp_pc \<times> world \<Rightarrow> frp_pc \<times> world" where
  "FinancialRecoveryProgram_step prg now Fired (F_Start, w) =
     (let (t, r) = request (staff w) in (F_Request t, w\<lparr>staff := r\<rparr>))"
| "FinancialRecoveryProgram_step prg now Fired (F_Request t, w) =
     (F_Timeout t (20 + frp_duration prg), w)"
| "FinancialRecoveryProgram_step prg now Fired (F_Timeout t d, w) =
     (let w1 = w\<lparr>staff := release t (staff w)\<rparr>;
          (c, p) = get 1 (budget w1)
      in (F_Get p, w1\<lparr>budget := c\<rparr>))"
| "FinancialRecoveryProgram_step prg now Fired (F_Get p, w) =
     (F_Put, w\<lparr>budget := put 1 (get_granted p (budget w))\<rparr>)"
| "FinancialRecoveryProgram_step prg now Fired (F_Put, w) =
     (if \<not> frp_entity prg then (F_Raised AttributeError, w)
      else (F_Done, w\<lparr>ent := say (ProgramCompleted now (level (budget w))) (ent w)\<rparr>))"
| "FinancialRecoveryProgram_step prg now sg (F_Done, w) = (F_Done, w)"
| "FinancialRecoveryProgram_step prg now sg (F_Raised e, w) = (F_Raised e, w)"
| "FinancialRecoveryProgram_step prg now (Interrupt c) (pc, w) =
     (F_Raised (Interrupted c), w)"

subsection \<open>IndividualAssistance.process (financial.py 110-239)\<close>

datatype ia_pc =
    IA_Start
  | IA_Request nat
  | IA_Timeout nat real
  | IA_GetFull "real option"
  | IA_GetPartial "real option"
  | IA_Callbacks
  | IA_Done
  | IA_Raised py_error

record ia_program =
  ia_duration :: real
  ia_callbacks :: bool

definition ia_finish :: "ia_program \<Rightarrow> world \<Rightarrow> ia_pc \<times> world" where
  \<comment> \<open>lines 236-239, after the \<^verbatim>\<open>try\<close> statement\<close>
  "ia_finish prg w = (if ia_callbacks prg then (IA_Callbacks, w) else (IA_Done, w))"

definition ia_tier :: "building \<Rightarrow> real" where
  \<comment> \<open>lines 155-160\<close>
  "ia_tier b =
     (if \<not> new_plinth b then 50000
      else if \<not> new_walls b then 150000
      else 100000)"

definition ia_installment :: "real \<Rightarrow> building \<Rightarrow> building" where
  \<comment> \<open>lines 172-180\<close>
  "ia_installment now b =
     (if \<not> new_plinth b then b\<lparr>first_inst := True, first_inst_time := now\<rparr>
      else if \<not> new_walls b then b\<lparr>second_inst := True, second_inst_time := now\<rparr>
      else b\<lparr>third_inst := True, third_inst_time := now\<rparr>)"

definition ia_settle :: "ia_program \<Rightarrow> real \<Rightarrow> nat \<Rightarrow> world \<Rightarrow> ia_pc \<times> world" where
  \<comment> \<open>lines 149-225: the code run when the timeout fires\<close>
  "ia_settle prg now t w =
     (let w1 = w\<lparr>staff := release t (staff w)\<rparr>;
          e1 = (ent w1)\<lparr>assistance_get := Some now\<rparr>;
          e2 = e1\<lparr>assistance_request := ia_tier (property w1)\<rparr>
      in if assistance_request e2 \<le> level (budget w1) \<and> assistance_request e2 \<noteq> 0 then
           (let e3 = e2\<lparr>assistance_payout := assistance_request e2\<rparr>;
                e4 = e3\<lparr>money_to_rebuild := money_to_rebuild e3 + assistance_payout e3\<rparr>;
                b = ia_installment now (property w1);
                (c, p) = get (assistance_request e4) (budget w1)
            in (IA_GetFull p, w1\<lparr>ent := e4, property := b, budget := c\<rparr>))
         else if level (budget w1) > 0 then
           (let e3 = e2\<lparr>assistance_payout := level (budget w1)\<rparr>;
                e4 = e3\<lparr>money_to_rebuild := money_to_rebuild e3 + assistance_payout e3\<rparr>;
                (c, p) = get (level (budget w1)) (budget w1)
            in (IA_GetPartial p, w1\<lparr>ent := e4, budget := c\<rparr>))
         else
           ia_finish prg (w1\<lparr>ent := say NoMoneyNRA (e2\<lparr>assistance_payout := 0\<rparr>)\<rparr>))"

fun IndividualAssistance_step ::
  "ia_program \<Rightarrow> real \<Rightarrow> signal \<Rightarrow> ia_pc \<times> world \<Rightarrow> ia_pc \<times> world" where
  "IndividualAssistance_step prg now Fired (IA_Start, w) =
     (if money_to_rebuild (ent w) \<ge> damage_value (property w) then (IA_Done, w)
      else
        (let e1 = (ent w)\<lparr>assistance_put := Some now\<rparr>;
             e2 = say (SubmittedNRA (assistance_put e1)) e1;
             (t, r) = request (staff w)
         in (IA_Request t, w\<lparr>ent := e2, staff := r\<rparr>)))"
| "IndividualAssistance_step prg now Fired (IA_Request t, w) =
     (IA_Timeout t (ia_duration prg), w)"
| "IndividualAssistance_step prg now Fired (IA_Timeout t d, w) = ia_settle prg now t w"
| "IndividualAssistance_step prg now Fired (IA_GetFull p, w) =
     (let w1 = w\<lparr>budget := get_granted p (budget w)\<rparr>
      in ia_finish prg
           (w1\<lparr>ent := say (ReceivedNRA (assistance_payout (ent w1))
                                        (assistance_get (ent w1))) (ent w1)\<rparr>))"
| "IndividualAssistance_step prg now Fired (IA_GetPartial p, w) =
     (let w1 = w\<lparr>budget := get_granted p (budget w)\<rparr>
      in ia_finish prg
           (w1\<lparr>ent := say (PartialNRA (assistance_request (ent w1))
                                       (assistance_payout (ent w1))
                                       (assistance_get (ent w1))) (ent w1)\<rparr>))"
| "IndividualAssistance_step prg now Fired (IA_Callbacks, w) = (IA_Done, w)"
| "IndividualAssistance_step prg now (Interrupt c) (IA_Start, w) =
     (IA_Raised (Interrupted c), w)"
| "IndividualAssistance_step prg now (Interrupt c) (IA_Callbacks, w) =
     (IA_Raised (Interrupted c), w)"
| "IndividualAssistance_step prg now sg (IA_Done, w) = (IA_Done, w)"
| "IndividualAssistance_step prg now sg (IA_Raised e, w) = (IA_Raised e, w)"
| "IndividualAssistance_step prg now (Interrupt c) (pc, w) =
     ia_finish prg (w\<lparr>ent := say (GaveUpNRA c) (ent w)\<rparr>)"


subsection \<open>OwnersInsurance.process (financial.py 269-361)\<close>

text \<open>The deductible amount is a local variable: the program counter carries it.\<close>

datatype oi_pc =
    OI_Start
  | OI_Request nat real
  | OI_Timeout nat real real
  | OI_Callbacks
  | OI_Done
  | OI_Raised py_error

record oi_program =
  oi_duration :: real
  oi_callbacks :: bool
  deductible :: real

definition oi_finish :: "oi_program \<Rightarrow> world \<Rightarrow> oi_pc \<times> world" where
  "oi_finish prg w = (if oi_callbacks prg then (OI_Callbacks, w) else (OI_Done, w))"

definition oi_submit :: "oi_program \<Rightarrow> real \<Rightarrow> world \<Rightarrow> oi_pc \<times> world" where
  \<comment> \<open>lines 288-326: the code run up to the first \<^verbatim>\<open>yield\<close>\<close>
  "oi_submit prg now w =
     (if insurance (ent w) \<le> 0 then (OI_Done, w\<lparr>ent := say NoInsurance (ent w)\<rparr>)
      else
        (let e1 = (ent w)\<lparr>claim_put := Some now\<rparr>;
             e2 = say (SubmittedClaim (claim_put e1)) e1;
             deductible_amount = bvalue (property w) * insurance e2 * deductible prg
         in if damage_value (property w) < deductible_amount then
              (OI_Done, w\<lparr>ent := (say DeductibleGreater e2)\<lparr>claim_get := Some now\<rparr>\<rparr>)
            else
              (let (t, r) = request (staff w)
               in (OI_Request t deductible_amount, w\<lparr>ent := e2, staff := r\<rparr>))))"

definition oi_settle :: "oi_program \<Rightarrow> real \<Rightarrow> nat \<Rightarrow> real \<Rightarrow> world \<Rightarrow> oi_pc \<times> world" where
  \<comment> \<open>lines 331-349: the code run when the timeout fires\<close>
  "oi_settle prg now t deductible_amount w =
     (let e1 = (ent w)\<lparr>claim_payout := damage_value (property w) - deductible_amount\<rparr>;
          e2 = e1\<lparr>money_to_rebuild := money_to_rebuild e1 + claim_payout e1\<rparr>;
          e3 = e2\<lparr>claim_get := Some now\<rparr>;
          r = release t (staff w)
      in oi_finish prg
           (w\<lparr>ent := say (ReceivedClaim (claim_payout e3) (claim_get e3)) e3,
              staff := r\<rparr>))"

fun OwnersInsurance_step ::
  "oi_program \<Rightarrow> real \<Rightarrow> signal \<Rightarrow> oi_pc \<times> world \<Rightarrow> oi_pc \<times> world" where
  "OwnersInsurance_step prg now Fired (OI_Start, w) = oi_submit prg now w"
| "OwnersInsurance_step prg now Fired (OI_Request t da, w) =
     (OI_Timeout t da (oi_duration prg), w)"
| "OwnersInsurance_step prg now Fired (OI_Timeout t da d, w) = oi_settle prg now t da w"
| "OwnersInsurance_step prg now Fired (OI_Callbacks, w) = (OI_Done, w)"
| "OwnersInsurance_step prg now (Interrupt c) (OI_Start, w) =
     (OI_Raised (Interrupted c), w)"
| "OwnersInsurance_step prg now (Interrupt c) (OI_Callbacks, w) =
     (OI_Raised (Interrupted c), w)"
| "OwnersInsurance_step prg now sg (OI_Done, w) = (OI_Done, w)"
| "OwnersInsurance_step prg now sg (OI_Raised e, w) = (OI_Raised e, w)"
| "OwnersInsurance_step prg now (Interrupt c) (pc, w) =
     oi_finish prg (w\<lparr>ent := say (GaveUpClaim c) (ent w)\<rparr>)"

subsection \<open>HomeLoan.process (financial.py 392-483)\<close>

text \<open>\<^verbatim>\<open>rebuild_cost\<close> is computed before the first \<^verbatim>\<open>yield\<close> and kept as a local.\<close>

datatype hl_pc =
    HL_Start
  | HL_Request nat real
  | HL_Timeout nat real real
  | HL_Callbacks
  | HL_Done
  | HL_Raised py_error

record hl_program =
  hl_duration :: real
  hl_callbacks :: bool
  max_loan :: real

definition hl_finish :: "hl_program \<Rightarrow> world \<Rightarrow> hl_pc \<times> world" where
  "hl_finish prg w = (if hl_callbacks prg then (HL_Callbacks, w) else (HL_Done, w))"

definition hl_rebuild_cost :: "building \<Rightarrow> real" where
  \<comment> \<open>lines 408-413\<close>
  "hl_rebuild_cost b =
     (if \<not> new_plinth b then plinth_value b
      else if \<not> new_walls b then wall_value b
      else roof_value b)"

definition hl_submit :: "hl_program \<Rightarrow> real \<Rightarrow> world \<Rightarrow> hl_pc \<times> world" where
  \<comment> \<open>lines 408-436\<close>
  "hl_submit prg now w =
     (let rebuild_cost = hl_rebuild_cost (property w)
      in if money_to_rebuild (ent w) \<ge> rebuild_cost then (HL_Done, w)
         else
           (let e1 = (ent w)\<lparr>loan_put := Some now\<rparr>;
                e2 = say (SubmittedLoan (loan_put e1)) e1;
                (t, r) = request (staff w)
            in (HL_Request t rebuild_cost, w\<lparr>ent := e2, staff := r\<rparr>)))"

definition hl_settle :: "hl_program \<Rightarrow> real \<Rightarrow> nat \<Rightarrow> real \<Rightarrow> world \<Rightarrow> hl_pc \<times> world" where
  \<comment> \<open>lines 442-470: the code run when the timeout fires\<close>
  "hl_settle prg now t rebuild_cost w =
     (let r = release t (staff w);
          e1 = (ent w)\<lparr>loan_get := Some now\<rparr>;
          saved = (if \<not> new_plinth (property w) then savings e1 else 0);
          e2 = e1\<lparr>loan_amount :=
                    min (max_loan prg)
                        (rebuild_cost - saved - claim_payout e1 - assistance_payout e1)\<rparr>
      in if loan_amount e2 > 0 then
           (let e3 = e2\<lparr>money_to_rebuild := money_to_rebuild e2 + loan_amount e2\<rparr>;
                e4 = e3\<lparr>debt := debt e3 + loan_amount e3\<rparr>
            in hl_finish prg
                 (w\<lparr>staff := r,
                    ent := say (ReceivedLoan (loan_amount e4) (loan_get e4)) e4\<rparr>))
         else hl_finish prg (w\<lparr>staff := r, ent := e2\<rparr>))"

fun HomeLoan_step ::
  "hl_program \<Rightarrow> real \<Rightarrow> signal \<Rightarrow> hl_pc \<times> world \<Rightarrow> hl_pc \<times> world" where
  "HomeLoan_step prg now Fired (HL_Start, w) = hl_submit prg now w"
| "HomeLoan_step prg now Fired (HL_Request t rc, w) =
     (HL_Timeout t rc (hl_duration prg), w)"
| "HomeLoan_step prg now Fired (HL_Timeout t rc d, w) = hl_settle prg now t rc w"
| "HomeLoan_step prg now Fired (HL_Callbacks, w) = (HL_Done, w)"
| "HomeLoan_step prg now (Interrupt c) (HL_Start, w) =
     (HL_Raised (Interrupted c), w)"
| "HomeLoan_step prg now (Interrupt c) (HL_Callbacks, w) =
     (HL_Raised (Interrupted c), w)"
| "HomeLoan_step prg now sg (HL_Done, w) = (HL_Done, w)"
| "HomeLoan_step prg now sg (HL_Raised e, w) = (HL_Raised e, w)"
| "HomeLoan_step prg now (Interrupt c) (pc, w) =
     hl_finish prg (w\<lparr>ent := say (GaveUpLoan c) (ent w)\<rparr>)"


section \<open>Technical programs (technical.py)\<close>

text \<open>
  \<^verbatim>\<open>TechnicalRecoveryProgram.__init__\<close> (technical.py 35-50): the pool, then the
  duration sampler. \<^verbatim>\<open>RepairProgram.__init__\<close> calls it, stores its containers and
  creates a generator it never runs.
\<close>

definition TechnicalRecoveryProgram_init :: "bool \<Rightarrow> capacity \<Rightarrow> py_error + resource" where
  "TechnicalRecoveryProgram_init dist_ok staff_arg =
     (case Resource_init staff_arg of
        Inl e \<Rightarrow> Inl e
      | Inr r \<Rightarrow> if dist_ok then Inr r else Inl ValueError)"

text \<open>
  The first incomplete stage's valuation, as \<^verbatim>\<open>InspectionProgram.process\<close> computes
  it (lines 157-162): when all three stages are complete the local \<^verbatim>\<open>rebuild_cost\<close> is
  never bound.
\<close>

definition insp_rebuild_cost :: "building \<Rightarrow> real option" where
  "insp_rebuild_cost b =
     (if \<not> new_plinth b then Some (plinth_value b)
      else if \<not> new_walls b then Some (wall_value b)
      else if \<not> new_roof b then Some (roof_value b)
      else None)"

subsection \<open>TechnicalRecoveryProgram.process (technical.py 53-90)\<close>

text \<open>
  The example process of the base class, whose parameter is the sampled duration. After
  the release it reads \<^verbatim>\<open>self.materials\<close>, an attribute no constructor sets.
\<close>

datatype trp_pc =
    T_Start
  | T_Request nat
  | T_Timeout nat real
  | T_Raised py_error

fun TechnicalRecoveryProgram_step ::
  "real \<Rightarrow> real \<Rightarrow> signal \<Rightarrow> trp_pc \<times> world \<Rightarrow> trp_pc \<times> world" where
  "TechnicalRecoveryProgram_step dur now Fired (T_Start, w) =
     (let (t, r) = request (staff w) in (T_Request t, w\<lparr>staff := r\<rparr>))"
| "TechnicalRecoveryProgram_step dur now Fired (T_Request t, w) = (T_Timeout t dur, w)"
| "TechnicalRecoveryProgram_step dur now Fired (T_Timeout t d, w) =
     (T_Raised AttributeError, w\<lparr>staff := release t (staff w)\<rparr>)"
| "TechnicalRecoveryProgram_step dur now sg (T_Raised e, w) = (T_Raised e, w)"
| "TechnicalRecoveryProgram_step dur now (Interrupt c) (pc, w) =
     (T_Raised (Interrupted c), w)"

subsection \<open>InspectionProgram.process (technical.py 116-171)\<close>

text \<open>
  \<open>insp_entity\<close> tells whether an entity was passed (\<^verbatim>\<open>entity != None\<close>); without one
  the \<open>ent\<close> of the world is not the process's to touch. The process has no \<^verbatim>\<open>try\<close>:
  an interruption leaves the generator as an exception.
\<close>

datatype insp_pc =
    I_Start
  | I_Request nat
  | I_Timeout nat real
  | I_Done
  | I_Raised py_error

record insp_program =
  insp_duration :: real
  insp_entity :: bool

definition insp_finish :: "insp_program \<Rightarrow> real \<Rightarrow> nat \<Rightarrow> world \<Rightarrow> insp_pc \<times> world" where
  \<comment> \<open>lines 146-171: the code run when the timeout fires\<close>
  "insp_finish prg now t w =
     (let w1 = w\<lparr>property := (property w)\<lparr>inspected := True\<rparr>\<rparr>;
          w2 = w1\<lparr>staff := release t (staff w1)\<rparr>;
          w3 = (if insp_entity prg
                then w2\<lparr>ent := (ent w2)\<lparr>inspection_get := Some now\<rparr>\<rparr>
                else w2);
          rebuild_cost = insp_rebuild_cost (property w3)
      in if \<not> insp_entity prg then (I_Raised AttributeError, w3)
         else if write_story (ent w3) then
           (case rebuild_cost of
              None \<Rightarrow> (I_Raised UnboundLocalError, w3)
            | Some rc \<Rightarrow>
                (I_Done, w3\<lparr>ent := (ent w3)\<lparr>story := story (ent w3) @
                              [InspectedLine (inspection_get (ent w3)) rc]\<rparr>\<rparr>))
         else (I_Done, w3))"

fun InspectionProgram_step ::
  "insp_program \<Rightarrow> real \<Rightarrow> signal \<Rightarrow> insp_pc \<times> world \<Rightarrow> insp_pc \<times> world" where
  "InspectionProgram_step prg now Fired (I_Start, w) =
     (let w1 = (if insp_entity prg
                then w\<lparr>ent := (ent w)\<lparr>inspection_put := Some now\<rparr>\<rparr>
                else w);
          (t, r) = request (staff w1)
      in (I_Request t, w1\<lparr>staff := r\<rparr>))"
| "InspectionProgram_step prg now Fired (I_Request t, w) =
     (I_Timeout t (insp_duration prg), w)"
| "InspectionProgram_step prg now Fired (I_Timeout t d, w) = insp_finish prg now t w"
| "InspectionProgram_step prg now sg (I_Done, w) = (I_Done, w)"
| "InspectionProgram_step prg now sg (I_Raised e, w) = (I_Raised e, w)"
| "InspectionProgram_step prg now (Interrupt c) (pc, w) = (I_Raised (Interrupted c), w)"

subsection \<open>EngineeringAssessment.process (technical.py 199-245)\<close>

text \<open>
  With callbacks the last statement reads the name \<^verbatim>\<open>env\<close>, which the module does not
  define (line 243).
\<close>

datatype ea_pc =
    EA_Start
  | EA_Request nat
  | EA_Timeout nat real
  | EA_Done
  | EA_Raised py_error

record ea_program =
  ea_duration :: real
  ea_callbacks :: bool

fun EngineeringAssessment_step ::
  "ea_program \<Rightarrow> real \<Rightarrow> signal \<Rightarrow> ea_pc \<times> world \<Rightarrow> ea_pc \<times> world" where
  "EngineeringAssessment_step prg now Fired (EA_Start, w) =
     (let e1 = (ent w)\<lparr>assessment_put := Some now\<rparr>;
          (t, r) = request (staff w)
      in (EA_Request t, w\<lparr>ent := e1, staff := r\<rparr>))"
| "EngineeringAssessment_step prg now Fired (EA_Request t, w) =
     (EA_Timeout t (ea_duration prg), w)"
| "EngineeringAssessment_step prg now Fired (EA_Timeout t d, w) =
     (let r = release t (staff w);
          b = (property w)\<lparr>assessment := True\<rparr>;
          e1 = (ent w)\<lparr>assessment_get := Some now\<rparr>;
          w1 = w\<lparr>staff := r, property := b,
                 ent := say (AssessmentLine (assessment_get e1)) e1\<rparr>
      in if ea_callbacks prg then (EA_Raised NameError, w1) else (EA_Done, w1))"
| "EngineeringAssessment_step prg now sg (EA_Done, w) = (EA_Done, w)"
| "EngineeringAssessment_step prg now sg (EA_Raised e, w) = (EA_Raised e, w)"
| "EngineeringAssessment_step prg now (Interrupt c) (pc, w) =
     (EA_Raised (Interrupted c), w)"

subsection \<open>PermitProgram.process (technical.py 272-317)\<close>

datatype pp_pc =
    PP_Start
  | PP_Request nat
  | PP_Timeout nat real
  | PP_Callbacks
  | PP_Done
  | PP_Raised py_error

record pp_program =
  pp_duration :: real
  pp_callbacks :: bool

fun PermitProgram_step ::
  "pp_program \<Rightarrow> real \<Rightarrow> signal \<Rightarrow> pp_pc \<times> world \<Rightarrow> pp_pc \<times> world" where
  "PermitProgram_step prg now Fired (PP_Start, w) =
     (let e1 = (ent w)\<lparr>permit_put := Some now\<rparr>;
          (t, r) = request (staff w)
      in (PP_Request t, w\<lparr>ent := e1, staff := r\<rparr>))"
| "PermitProgram_step prg now Fired (PP_Request t, w) =
     (PP_Timeout t (pp_duration prg), w)"
| "PermitProgram_step prg now Fired (PP_Timeout t d, w) =
     (let r = release t (staff w);
          b = (property w)\<lparr>permit := True\<rparr>;
          e1 = (ent w)\<lparr>permit_get := Some now\<rparr>;
          w1 = w\<lparr>staff := r, property := b,
                 ent := say (PermitLine (permit_get e1)) e1\<rparr>
      in if pp_callbacks prg then (PP_Callbacks, w1) else (PP_Done, w1))"
| "PermitProgram_step prg now Fired (PP_Callbacks, w) = (PP_Done, w)"
| "PermitProgram_step prg now sg (PP_Done, w) = (PP_Done, w)"
| "PermitProgram_step prg now sg (PP_Raised e, w) = (PP_Raised e, w)"
| "PermitProgram_step prg now (Interrupt c) (pc, w) =
     (PP_Raised (Interrupted c), w)"


subsection \<open>RepairProgram.process (technical.py 363-624)\<close>

text \<open>
  The process first reads the workbook of house types; \<open>mat_req\<close> is the column of that
  table for the build stage, by row label. \<open>build_stage\<close> is \<^verbatim>\<open>self.level\<close>.
  With callbacks the last statement reads the undefined name \<^verbatim>\<open>env\<close> (line 621).
\<close>

record repair_program =
  build_stage :: string
  mat_req :: "string \<Rightarrow> real"
  rp_callbacks :: bool

fun needed :: "repair_program \<Rightarrow> material \<Rightarrow> real" where
  \<comment> \<open>lines 398-408\<close>
  "needed prg Cement = mat_req prg ''Cement''"
| "needed prg Rebar = mat_req prg ''Rebar''"
| "needed prg CGI = mat_req prg ''CGI Sheet''"
| "needed prg Brick = mat_req prg ''Brick'' * 0.75"
| "needed prg Timber = mat_req prg ''Wood'' * 0.7"
| "needed prg Stone = mat_req prg ''Stone'' * 0.2"
| "needed prg Sand = mat_req prg ''Sand''"
| "needed prg Aggregate = mat_req prg ''Aggregate'' * 0.5"
| "needed prg Unskilled = mat_req prg ''Unskilled''"

definition rp_shortage :: "repair_program \<Rightarrow> world \<Rightarrow> string option" where
  \<comment> \<open>lines 418-504: the material word of the sentence written by the first failing check\<close>
  "rp_shortage prg w =
     (if needed prg Stone > level (stock w Stone) then Some ''stone''
      else if needed prg Brick > level (stock w Brick) then Some ''brick''
      else if needed prg Timber > level (stock w Timber) then Some ''stone''
      else if needed prg Rebar > level (stock w Rebar) then Some ''rebar''
      else if needed prg Cement > level (stock w Cement) then Some ''cement''
      else if needed prg CGI > level (stock w CGI) then Some ''CGI''
      else if needed prg Sand > level (stock w Sand) then Some ''sand''
      else if needed prg Aggregate > level (stock w Aggregate) then Some ''aggregate''
      else None)"

definition stage_cost :: "repair_program \<Rightarrow> building \<Rightarrow> real option" where
  \<comment> \<open>lines 507-512: for any other stage name the local \<^verbatim>\<open>cost\<close> stays unbound\<close>
  "stage_cost prg b =
     (if build_stage prg = ''Up to Plinth Level'' then Some (plinth_value b)
      else if build_stage prg = ''Superstructure'' then Some (wall_value b)
      else if build_stage prg = ''Roofing'' then Some (roof_value b)
      else None)"

datatype rp_pc =
    R_Start
  | R_Request "nat list"
  | R_Get material "real option" "nat list"
  | R_Timeout "nat list" real
  | R_Done
  | R_Raised py_error

definition rp_finish :: "repair_program \<Rightarrow> world \<Rightarrow> rp_pc \<times> world" where
  \<comment> \<open>lines 620-624\<close>
  "rp_finish prg w = (if rp_callbacks prg then (R_Raised NameError, w) else (R_Done, w))"

definition rp_begin :: "repair_program \<Rightarrow> real \<Rightarrow> world \<Rightarrow> rp_pc \<times> world" where
  \<comment> \<open>lines 415-538: the code run up to the first \<^verbatim>\<open>yield\<close>\<close>
  "rp_begin prg now w =
     (case rp_shortage prg w of
        Some word \<Rightarrow> (R_Done, w\<lparr>ent := say (InsufficientMaterial word) (ent w)\<rparr>)
      | None \<Rightarrow>
          (case stage_cost prg (property w) of
             None \<Rightarrow> (R_Raised UnboundLocalError, w)
           | Some cost \<Rightarrow>
               if money_to_rebuild (ent w) < cost then
                 (R_Done, w\<lparr>ent := say UnableToGetMoney (ent w)\<rparr>)
               else if money_to_rebuild (ent w) \<ge> cost then
                 (let e1 = (ent w)\<lparr>rebuild_put := Some now\<rparr>;
                      (t, r) = request (skilled w)
                  in (R_Request [t], w\<lparr>ent := e1, skilled := r\<rparr>))
               else rp_finish prg w))"

text \<open>
  Lines 550-572: the withdrawals, in the order of the source, each one a \<^verbatim>\<open>yield\<close>
  guarded by a positive requirement; after the last one the timeout of a quarter of the
  skilled effort (line 534).
\<close>

fun rp_withdraw ::
  "repair_program \<Rightarrow> material list \<Rightarrow> nat list \<Rightarrow> world \<Rightarrow> rp_pc \<times> world" where
  "rp_withdraw prg [] ts w = (R_Timeout ts (mat_req prg ''Skilled'' / 4), w)"
| "rp_withdraw prg (m # ms) ts w =
     (if needed prg m > 0 then
        (let (c, p) = get (needed prg m) (stock w m)
         in (R_Get m p ts, w\<lparr>stock := (stock w)(m := c)\<rparr>))
      else rp_withdraw prg ms ts w)"

definition withdrawals :: "material list" where
  "withdrawals = [Stone, Brick, Timber, Rebar, Cement, CGI, Sand, Aggregate, Unskilled]"

fun later :: "material \<Rightarrow> material list" where
  "later Stone = [Brick, Timber, Rebar, Cement, CGI, Sand, Aggregate, Unskilled]"
| "later Brick = [Timber, Rebar, Cement, CGI, Sand, Aggregate, Unskilled]"
| "later Timber = [Rebar, Cement, CGI, Sand, Aggregate, Unskilled]"
| "later Rebar = [Cement, CGI, Sand, Aggregate, Unskilled]"
| "later Cement = [CGI, Sand, Aggregate, Unskilled]"
| "later CGI = [Sand, Aggregate, Unskilled]"
| "later Sand = [Aggregate, Unskilled]"
| "later Aggregate = [Unskilled]"
| "later Unskilled = []"

text \<open>
  Lines 595-609, one definition for each of the three statements. The elapsed time reads
  \<^verbatim>\<open>entity.rebuild_put\<close>; were the attribute missing, the statement would stop there
  with what it had already assigned.
\<close>

definition rp_plinth ::
  "repair_program \<Rightarrow> entity \<times> building \<Rightarrow> py_error option \<times> entity \<times> building" where
  "rp_plinth prg eb =
     (let (e, b) = eb
      in if build_stage prg = ''Up to Plinth Level'' then
           (let b1 = b\<lparr>new_plinth := True\<rparr>;
                e1 = e\<lparr>money_to_rebuild := money_to_rebuild e - plinth_value b1\<rparr>
            in case (rebuild_get e1, rebuild_put e1) of
                 (Some g, Some p) \<Rightarrow>
                   (None, e1, b1\<lparr>plinth_time := g - p, finished_plinth := g\<rparr>)
               | _ \<Rightarrow> (Some AttributeError, e1, b1))
         else (None, e, b))"

definition rp_walls ::
  "repair_program \<Rightarrow> entity \<times> building \<Rightarrow> py_error option \<times> entity \<times> building" where
  "rp_walls prg eb =
     (let (e, b) = eb
      in if build_stage prg = ''Superstructure'' then
           (let b1 = b\<lparr>new_walls := True\<rparr>;
                e1 = e\<lparr>money_to_rebuild := money_to_rebuild e - wall_value b1\<rparr>
            in case (rebuild_get e1, rebuild_put e1) of
                 (Some g, Some p) \<Rightarrow>
                   (None, e1, b1\<lparr>walls_time := g - p, finished_walls := g\<rparr>)
               | _ \<Rightarrow> (Some AttributeError, e1, b1))
         else (None, e, b))"

definition rp_roof ::
  "repair_program \<Rightarrow> entity \<times> building \<Rightarrow> py_error option \<times> entity \<times> building" where
  "rp_roof prg eb =
     (let (e, b) = eb
      in if build_stage prg = ''Roofing'' then
           (let b1 = b\<lparr>new_roof := True\<rparr>
            in case (rebuild_get e, rebuild_put e) of
                 (Some g, Some p) \<Rightarrow>
                   (let b2 = b1\<lparr>roof_time := g - p, finished_roof := g\<rparr>
                    in (None, e\<lparr>money_to_rebuild := money_to_rebuild e - roof_value b2\<rparr>, b2))
               | _ \<Rightarrow> (Some AttributeError, e, b1))
         else (None, e, b))"

definition rp_complete ::
  "repair_program \<Rightarrow> real \<Rightarrow> nat list \<Rightarrow> world \<Rightarrow> rp_pc \<times> world" where
  \<comment> \<open>lines 574-609: the code run when the timeout fires\<close>
  "rp_complete prg now ts w =
     (let w1 = w\<lparr>skilled := fold release ts (skilled w)\<rparr>;
          e1 = (ent w1)\<lparr>rebuild_get := Some now\<rparr>
      in if write_story e1 \<and> rebuild_put e1 = None then
           (R_Raised AttributeError, w1\<lparr>ent := e1\<rparr>)
         else
           (let e2 = (case rebuild_put e1 of
                        None \<Rightarrow> e1
                      | Some p \<Rightarrow>
                          say (RepairedLine (build_stage prg) (rebuild_get e1) (now - p)) e1)
            in case rp_plinth prg (e2, property w1) of
                 (Some x, e3, b3) \<Rightarrow> (R_Raised x, w1\<lparr>ent := e3, property := b3\<rparr>)
               | (None, e3, b3) \<Rightarrow>
                   (case rp_walls prg (e3, b3) of
                      (Some x, e4, b4) \<Rightarrow> (R_Raised x, w1\<lparr>ent := e4, property := b4\<rparr>)
                    | (None, e4, b4) \<Rightarrow>
                        (case rp_roof prg (e4, b4) of
                           (Some x, e5, b5) \<Rightarrow>
                             (R_Raised x, w1\<lparr>ent := e5, property := b5\<rparr>)
                         | (None, e5, b5) \<Rightarrow>
                             rp_finish prg (w1\<lparr>ent := e5, property := b5\<rparr>)))))"

fun RepairProgram_step ::
  "repair_program \<Rightarrow> real \<Rightarrow> signal \<Rightarrow> rp_pc \<times> world \<Rightarrow> rp_pc \<times> world" where
  "RepairProgram_step prg now Fired (R_Start, w) = rp_begin prg now w"
| "RepairProgram_step prg now Fired (R_Request ts, w) =
     (if length ts < 4 then
        (let (t, r) = request (skilled w)
         in (R_Request (ts @ [t]), w\<lparr>skilled := r\<rparr>))
      else rp_withdraw prg withdrawals ts w)"
| "RepairProgram_step prg now Fired (R_Get m p ts, w) =
     rp_withdraw prg (later m) ts
       (w\<lparr>stock := (stock w)(m := get_granted p (stock w m))\<rparr>)"
| "RepairProgram_step prg now Fired (R_Timeout ts d, w) = rp_complete prg now ts w"
| "RepairProgram_step prg now (Interrupt c) (R_Start, w) = (R_Raised (Interrupted c), w)"
| "RepairProgram_step prg now sg (R_Done, w) = (R_Done, w)"
| "RepairProgram_step prg now sg (R_Raised e, w) = (R_Raised e, w)"
| "RepairProgram_step prg now (Interrupt c) (pc, w) =
     rp_finish prg (w\<lparr>ent := say (GaveUpRebuild c) (ent w)\<rparr>)"



section \<open>OwnerHousehold.occupy (entities.py 218-256)\<close>

text \<open>
  The process makes the property the household's residence, which gives the structure
  of the world a second name and changes no attribute of it.
\<close>

datatype oc_pc =
    OC_Start
  | OC_Timeout real
  | OC_Callbacks
  | OC_Done
  | OC_Raised py_error

record oc_program =
  oc_duration :: real
  oc_callbacks :: bool

fun occupy_step ::
  "oc_program \<Rightarrow> real \<Rightarrow> signal \<Rightarrow> oc_pc \<times> world \<Rightarrow> oc_pc \<times> world" where
  "occupy_step prg now Fired (OC_Start, w) = (OC_Timeout (oc_duration prg), w)"
| "occupy_step prg now Fired (OC_Timeout d, w) =
     (let w1 = w\<lparr>ent := say (OccupiedLine now) (ent w)\<rparr>
      in if oc_callbacks prg then (OC_Callbacks, w1) else (OC_Done, w1))"
| "occupy_step prg now Fired (OC_Callbacks, w) = (OC_Done, w)"
| "occupy_step prg now sg (OC_Done, w) = (OC_Done, w)"
| "occupy_step prg now sg (OC_Raised e, w) = (OC_Raised e, w)"
| "occupy_step prg now (Interrupt c) (pc, w) = (OC_Raised (Interrupted c), w)"

section \<open>Runs and example worlds\<close>

text \<open>
  A run of one process: the scheduler resumes it at the given times with the given
  signals. When an awaited event fires is the scheduler's decision, so a run is
  meaningful only if each \<open>Fired\<close> comes once the request is granted or the withdrawal
  is possible. \<open>idle_pool\<close> is a pool as its constructor leaves it.
\<close>

definition drive ::
  "(real \<Rightarrow> signal \<Rightarrow> 's \<Rightarrow> 's) \<Rightarrow> (real \<times> signal) list \<Rightarrow> 's \<Rightarrow> 's" where
  "drive step evs s = fold (\<lambda>(t, sg). step t sg) evs s"

definition idle_pool :: "capacity \<Rightarrow> resource" where
  "idle_pool c = \<lparr> slots = c, users = [], queue = [], fresh = 0 \<rparr>"

definition demo_world :: world where
  "demo_world =
     \<lparr> staff = idle_pool (Slots 1),
       budget = \<lparr> level = 30000 \<rparr>,
       skilled = idle_pool (Slots 4),
       stock = (\<lambda>m. \<lparr> level = 10 \<rparr>),
       ent = Owner_init True (1/2) 1500,
       property = Building_init 1000 2000 3000 \<rparr>"

definition demo_repair :: repair_program where
  "demo_repair =
     \<lparr> build_stage = ''Up to Plinth Level'',
       mat_req = (\<lambda>row. if row = ''Skilled'' then 8
                        else if row = ''Stone'' then 10
                        else if row = ''Cement'' then 4
                        else 0),
       rp_callbacks = False \<rparr>"

definition demo_assistance :: ia_program where
  "demo_assistance = \<lparr> ia_duration = 5, ia_callbacks = False \<rparr>"

definition demo_insurance :: oi_program where
  "demo_insurance = \<lparr> oi_duration = 5, oi_callbacks = False, deductible = 1/10 \<rparr>"

definition demo_loan :: hl_program where
  "demo_loan = \<lparr> hl_duration = 5, hl_callbacks = False, max_loan = 100 \<rparr>"

definition demo_permit :: pp_program where
  "demo_permit = \<lparr> pp_duration = 5, pp_callbacks = False \<rparr>"

text \<open>
  The example world after the repair process has been granted its four slots and has
  withdrawn its stone and cement; a world whose stone is short for an entity that keeps
  no story; a world and a program with more unskilled labour required than in stock.
\<close>

definition working_world :: world where
  "working_world =
     demo_world
       \<lparr> skilled := \<lparr> slots = Slots 4, users = [0, 1, 2, 3], queue = [], fresh = 4 \<rparr>,
         stock := (stock demo_world)(Stone := \<lparr> level = 8 \<rparr>, Cement := \<lparr> level = 6 \<rparr>),
         ent := (ent demo_world)\<lparr>rebuild_put := Some 1\<rparr> \<rparr>"

definition short_stone :: world where
  "short_stone =
     demo_world\<lparr>ent := (ent demo_world)\<lparr>write_story := False\<rparr>,
                stock := (stock demo_world)(Stone := \<lparr> level = 1 \<rparr>)\<rparr>"



section \<open>Notions used by the properties\<close>

text \<open>
  The materials the repair process checks before it starts, in the order of its checks;
  the first of them whose requirement exceeds the level of its container; the first
  material of a list with a positive requirement; the word that names a material.
\<close>

definition checked :: "material list" where
  "checked = [Stone, Brick, Timber, Rebar, Cement, CGI, Sand, Aggregate]"

definition first_short :: "repair_program \<Rightarrow> world \<Rightarrow> material option" where
  "first_short prg w = find (\<lambda>m. needed prg m > level (stock w m)) checked"

definition first_positive :: "repair_program \<Rightarrow> material list \<Rightarrow> material option" where
  "first_positive prg ms = find (\<lambda>m. needed prg m > 0) ms"

fun material_word :: "material \<Rightarrow> string" where
  "material_word Stone = ''stone''"
| "material_word Brick = ''brick''"
| "material_word Timber = ''timber''"
| "material_word Rebar = ''rebar''"
| "material_word Cement = ''cement''"
| "material_word CGI = ''CGI''"
| "material_word Sand = ''sand''"
| "material_word Aggregate = ''aggregate''"
| "material_word Unskilled = ''unskilled''"



text \<open>
  The suspension points inside the \<^verbatim>\<open>try\<close> statement of the four processes that
  catch an interruption.
\<close>

fun ia_suspended :: "ia_pc \<Rightarrow> bool" where
  "ia_suspended (IA_Request t) = True"
| "ia_suspended (IA_Timeout t d) = True"
| "ia_suspended (IA_GetFull p) = True"
| "ia_suspended (IA_GetPartial p) = True"
| "ia_suspended pc = False"

fun oi_suspended :: "oi_pc \<Rightarrow> bool" where
  "oi_suspended (OI_Request t a) = True"
| "oi_suspended (OI_Timeout t a d) = True"
| "oi_suspended pc = False"

fun hl_suspended :: "hl_pc \<Rightarrow> bool" where
  "hl_suspended (HL_Request t a) = True"
| "hl_suspended (HL_Timeout t a d) = True"
| "hl_suspended pc = False"

fun rp_suspended :: "rp_pc \<Rightarrow> bool" where
  "rp_suspended (R_Request ts) = True"
| "rp_suspended (R_Get m p ts) = True"
| "rp_suspended (R_Timeout ts d) = True"
| "rp_suspended pc = False"

text \<open>
  One step of any process of the sources on a world, and the history of a structure
  over a run: between two steps everything but the structure may have been changed by
  other processes.
\<close>

inductive program_step :: "world \<Rightarrow> world \<Rightarrow> bool" where
  by_assistance: "program_step w (snd (IndividualAssistance_step prg now sg (pc, w)))"
| by_insurance: "program_step w (snd (OwnersInsurance_step prg now sg (pc, w)))"
| by_loan: "program_step w (snd (HomeLoan_step prg now sg (pc, w)))"
| by_inspection: "program_step w (snd (InspectionProgram_step prg now sg (pc, w)))"
| by_assessment: "program_step w (snd (EngineeringAssessment_step prg now sg (pc, w)))"
| by_permit: "program_step w (snd (PermitProgram_step prg now sg (pc, w)))"
| by_repair: "program_step w (snd (RepairProgram_step prg now sg (pc, w)))"
| by_financial: "program_step w (snd (FinancialRecoveryProgram_step prg now sg (pc, w)))"
| by_technical: "program_step w (snd (TechnicalRecoveryProgram_step dur now sg (pc, w)))"
| by_occupy: "program_step w (snd (occupy_step prg now sg (pc, w)))"

inductive history :: "building \<Rightarrow> building \<Rightarrow> bool" where
  history_start: "history b b"
| history_step: "history b (property w) \<Longrightarrow> program_step w w' \<Longrightarrow> history b (property w')"

definition flags_kept :: "building \<Rightarrow> building \<Rightarrow> bool" where
  "flags_kept b b' =
     ((new_plinth b \<longrightarrow> new_plinth b') \<and> (new_walls b \<longrightarrow> new_walls b') \<and>
      (new_roof b \<longrightarrow> new_roof b'))"

section \<open>Properties\<close>

subsection \<open>Auxiliary facts\<close>

lemma first_short_None: "(first_short prg w = None) = (rp_shortage prg w = None)"
  by (simp add: first_short_def checked_def rp_shortage_def)

lemma first_short_Some:
  "first_short prg w = Some m \<Longrightarrow>
   rp_shortage prg w = Some (if m = Timber then ''stone'' else material_word m)"
  by (auto simp: first_short_def checked_def rp_shortage_def split: if_splits)




lemma rp_begin_short:
  "first_short prg w = Some m \<Longrightarrow>
   rp_begin prg now w =
     (R_Done, w\<lparr>ent := say (InsufficientMaterial
                               (if m = Timber then ''stone'' else material_word m)) (ent w)\<rparr>)"
  by (simp add: rp_begin_def first_short_Some)

lemma rp_begin_poor:
  "first_short prg w = None \<Longrightarrow> stage_cost prg (property w) = Some cost \<Longrightarrow>
   money_to_rebuild (ent w) < cost \<Longrightarrow>
   rp_begin prg now w = (R_Done, w\<lparr>ent := say UnableToGetMoney (ent w)\<rparr>)"
  by (simp add: rp_begin_def first_short_None)


lemma rp_withdraw_property: "property (snd (rp_withdraw prg ms ts w)) = property w"
  by (induction ms) (auto simp: Let_def split: prod.splits)

lemma later_not_self: "m \<notin> set (later m)"
  by (cases m) simp_all

lemma first_positive_mem:
  "first_positive prg ms = Some m \<Longrightarrow> m \<in> set ms \<and> needed prg m > 0"
  by (auto simp: first_positive_def find_Some_iff)









lemma flags_kept_refl: "flags_kept a a"
  by (simp add: flags_kept_def)

lemma flags_kept_trans: "flags_kept a b \<Longrightarrow> flags_kept b c \<Longrightarrow> flags_kept a c"
  by (auto simp: flags_kept_def)

lemma ia_kept:
  "flags_kept (property w) (property (snd (IndividualAssistance_step prg now sg (pc, w))))"
  by (cases pc; cases sg)
     (auto simp: flags_kept_def ia_settle_def ia_finish_def ia_installment_def Let_def get_def
           split: prod.splits if_splits)

lemma oi_kept:
  "flags_kept (property w) (property (snd (OwnersInsurance_step prg now sg (pc, w))))"
  by (cases pc; cases sg)
     (auto simp: flags_kept_def oi_settle_def oi_submit_def oi_finish_def Let_def
           split: prod.splits if_splits)

lemma hl_kept:
  "flags_kept (property w) (property (snd (HomeLoan_step prg now sg (pc, w))))"
  by (cases pc; cases sg)
     (auto simp: flags_kept_def hl_settle_def hl_submit_def hl_finish_def Let_def
           split: prod.splits if_splits)

lemma insp_kept:
  "flags_kept (property w) (property (snd (InspectionProgram_step prg now sg (pc, w))))"
  by (cases pc; cases sg)
     (auto simp: flags_kept_def insp_finish_def Let_def
           split: prod.splits if_splits option.splits)

lemma ea_kept:
  "flags_kept (property w) (property (snd (EngineeringAssessment_step prg now sg (pc, w))))"
  by (cases pc; cases sg)
     (auto simp: flags_kept_def Let_def split: prod.splits if_splits)

lemma pp_kept:
  "flags_kept (property w) (property (snd (PermitProgram_step prg now sg (pc, w))))"
  by (cases pc; cases sg)
     (auto simp: flags_kept_def Let_def split: prod.splits if_splits)

lemma rp_plinth_kept: "rp_plinth prg (e, b) = (x, e', b') \<Longrightarrow> flags_kept b b'"
  by (auto simp: rp_plinth_def flags_kept_def Let_def split: if_splits option.splits)

lemma rp_walls_kept: "rp_walls prg (e, b) = (x, e', b') \<Longrightarrow> flags_kept b b'"
  by (auto simp: rp_walls_def flags_kept_def Let_def split: if_splits option.splits)

lemma rp_roof_kept: "rp_roof prg (e, b) = (x, e', b') \<Longrightarrow> flags_kept b b'"
  by (auto simp: rp_roof_def flags_kept_def Let_def split: if_splits option.splits)

lemma rp_complete_kept:
  "flags_kept (property w) (property (snd (rp_complete prg now ts w)))"
proof -
  let ?e1 = "(ent w)\<lparr>rebuild_get := Some now\<rparr>"
  let ?e2 = "case rebuild_put ?e1 of
               None \<Rightarrow> ?e1
             | Some p \<Rightarrow> say (RepairedLine (build_stage prg) (rebuild_get ?e1) (now - p)) ?e1"
  obtain x3 e3 b3 where p: "rp_plinth prg (?e2, property w) = (x3, e3, b3)"
    by (metis prod_cases3)
  obtain x4 e4 b4 where q: "rp_walls prg (e3, b3) = (x4, e4, b4)"
    by (metis prod_cases3)
  obtain x5 e5 b5 where r: "rp_roof prg (e4, b4) = (x5, e5, b5)"
    by (metis prod_cases3)
  note k = rp_plinth_kept [OF p] rp_walls_kept [OF q] rp_roof_kept [OF r]
  have k4: "flags_kept (property w) b4"
    using k flags_kept_trans by blast
  have k5: "flags_kept (property w) b5"
    using k4 k flags_kept_trans by blast
  show ?thesis
    using p q r k(1) k4 k5
    by (auto simp: rp_complete_def Let_def rp_finish_def flags_kept_refl split: option.splits)
qed

lemma rp_kept:
  "flags_kept (property w) (property (snd (RepairProgram_step prg now sg (pc, w))))"
proof (cases pc)
  case R_Start
  then show ?thesis
    by (cases sg)
       (auto simp: flags_kept_def rp_begin_def rp_finish_def Let_def
             split: prod.splits option.splits)
next
  case (R_Request ts)
  then show ?thesis
    by (cases sg)
       (auto simp: flags_kept_refl rp_withdraw_property rp_finish_def Let_def
             split: prod.splits)
next
  case (R_Get m p ts)
  then show ?thesis
    by (cases sg) (auto simp: flags_kept_refl rp_withdraw_property rp_finish_def)
next
  case (R_Timeout ts d)
  then show ?thesis
    by (cases sg) (auto simp: flags_kept_refl rp_complete_kept rp_finish_def)
next
  case R_Done
  then show ?thesis by (simp add: flags_kept_refl)
next
  case (R_Raised e)
  then show ?thesis by (simp add: flags_kept_refl)
qed

lemma frp_kept:
  "flags_kept (property w) (property (snd (FinancialRecoveryProgram_step prg now sg (pc, w))))"
  by (cases pc; cases sg)
     (auto simp: flags_kept_def Let_def split: prod.splits if_splits)

lemma trp_kept:
  "flags_kept (property w) (property (snd (TechnicalRecoveryProgram_step dur now sg (pc, w))))"
  by (cases pc; cases sg)
     (auto simp: flags_kept_def Let_def split: prod.splits if_splits)

lemma occupy_kept:
  "flags_kept (property w) (property (snd (occupy_step prg now sg (pc, w))))"
  by (cases pc; cases sg)
     (auto simp: flags_kept_def Let_def split: prod.splits if_splits)

lemma program_step_kept: "program_step w w' \<Longrightarrow> flags_kept (property w) (property w')"
  by (induction rule: program_step.induct)
     (simp_all add: ia_kept oi_kept hl_kept insp_kept ea_kept pp_kept rp_kept
                    frp_kept trp_kept occupy_kept)

lemma history_kept: "history b b' \<Longrightarrow> flags_kept b b'"
proof (induction rule: history.induct)
  case (history_start b)
  show ?case by (rule flags_kept_refl)
next
  case (history_step b w w')
  from history_step.IH program_step_kept [OF history_step.hyps(2)]
  show ?case by (rule flags_kept_trans)
qed

lemma ia_interrupted:
  "ia_suspended pc \<Longrightarrow>
   IndividualAssistance_step prg now (Interrupt c) (pc, w) =
     ia_finish prg (w\<lparr>ent := say (GaveUpNRA c) (ent w)\<rparr>)"
  by (cases pc) simp_all

lemma oi_interrupted:
  "oi_suspended pc \<Longrightarrow>
   OwnersInsurance_step prg now (Interrupt c) (pc, w) =
     oi_finish prg (w\<lparr>ent := say (GaveUpClaim c) (ent w)\<rparr>)"
  by (cases pc) simp_all

lemma hl_interrupted:
  "hl_suspended pc \<Longrightarrow>
   HomeLoan_step prg now (Interrupt c) (pc, w) =
     hl_finish prg (w\<lparr>ent := say (GaveUpLoan c) (ent w)\<rparr>)"
  by (cases pc) simp_all

lemma rp_interrupted:
  "rp_suspended pc \<Longrightarrow>
   RepairProgram_step prg now (Interrupt c) (pc, w) =
     rp_finish prg (w\<lparr>ent := say (GaveUpRebuild c) (ent w)\<rparr>)"
  by (cases pc) simp_all

subsection \<open>Inspection without an entity\<close>

text \<open>
  C9. The claim: \<^verbatim>\<open>InspectionProgram.process\<close> called with \<^verbatim>\<open>entity = None\<close> completes
  without raising. The code does not: with a free inspector the process is granted the
  slot, marks the structure inspected, releases the slot and leaves the entity alone, and
  then evaluates \<^verbatim>\<open>entity.write_story\<close> on \<^verbatim>\<open>None\<close> (line 166), which raises
  \<^verbatim>\<open>AttributeError\<close>.
\<close>

theorem inspection_without_entity_raises:
  "(let (pc, w') = drive (InspectionProgram_step (prg\<lparr>insp_entity := False\<rparr>))
                     [(t0, Fired), (t1, Fired), (t2, Fired)]
                     (I_Start, w\<lparr>staff := idle_pool (Slots 1)\<rparr>)
    in pc = I_Raised AttributeError \<and> inspected (property w') \<and>
       users (staff w') = [] \<and> ent w' = ent w)"
  by (simp add: drive_def insp_finish_def Let_def idle_pool_def request_def release_def
                admit_head_def split: prod.splits)

subsection \<open>Construction\<close>

text \<open>
  C10, as amended. Constructing a financial program fails exactly when the staff
  capacity is not positive, the budget is below zero or the duration sampler rejects
  its distribution; constructing a technical program fails exactly when the staff
  capacity is not positive or the sampler rejects its distribution. A budget of zero is
  accepted.
\<close>

theorem construction_fails_iff:
  "isl (FinancialRecoveryProgram_init dist_ok staff_arg budget_arg) =
     (\<not> positive_capacity staff_arg \<or> budget_arg < 0 \<or> \<not> dist_ok)
   \<and> isl (TechnicalRecoveryProgram_init dist_ok staff_arg) =
     (\<not> positive_capacity staff_arg \<or> \<not> dist_ok)"
  by (auto simp: FinancialRecoveryProgram_init_def TechnicalRecoveryProgram_init_def
                 Resource_init_def Container_init_def)

theorem construction_fails_iff_witness:
  "isl (FinancialRecoveryProgram_init True (Slots 0) 5) \<and>
   isl (FinancialRecoveryProgram_init True (Slots 3) (-1)) \<and>
   isl (TechnicalRecoveryProgram_init True (Slots (-2))) \<and>
   \<not> isl (FinancialRecoveryProgram_init True Unbounded 0)"
  using construction_fails_iff [of True "Slots 0" 5]
        construction_fails_iff [of True "Slots 3" "-1"]
        construction_fails_iff [of True "Slots (-2)" 0]
        construction_fails_iff [of True Unbounded 0]
  by simp

text \<open>
  C10 as stated fails: a financial program with one staff member and a budget of zero
  is constructed, with an empty container.
\<close>

theorem zero_budget_is_accepted:
  "(0::real) \<le> 0 \<and>
   FinancialRecoveryProgram_init True (Slots 1) 0 = Inr (idle_pool (Slots 1), \<lparr> level = 0 \<rparr>)"
  by (simp add: FinancialRecoveryProgram_init_def Resource_init_def Container_init_def
                idle_pool_def)


subsection \<open>Financial settlements\<close>

text \<open>
  C5. When the timeout of an IndividualAssistance process fires, with \<open>r\<close> the request
  of the structure's tier and \<open>L\<close> the level of the budget at that moment: if \<open>r \<le> L\<close>
  the entity is paid \<open>r\<close>, the container loses exactly \<open>r\<close> and the installment flag
  and time of the tier are set; else if \<open>L > 0\<close> the entity is paid \<open>L\<close> and the
  container is emptied; else the payout is 0. In every case the payout is added to
  \<^verbatim>\<open>money_to_rebuild\<close>. The withdrawal is complete when issued: resuming the
  process afterwards leaves the container as it is.
\<close>

theorem assistance_settlement:
  "(let r = (if \<not> new_plinth (property w) then 50000
             else if \<not> new_walls (property w) then 150000 else 100000);
        L = level (budget w);
        (pc, w') = IndividualAssistance_step prg now Fired (IA_Timeout t d, w);
        paid = assistance_payout (ent w')
    in assistance_request (ent w') = r \<and>
       paid = (if r \<le> L then r else if 0 < L then L else 0) \<and>
       level (budget w') = (if r \<le> L then L - r else if 0 < L then 0 else L) \<and>
       money_to_rebuild (ent w') = money_to_rebuild (ent w) + paid \<and>
       (if r \<le> L then
          pc = IA_GetFull None \<and>
          (if \<not> new_plinth (property w) then
             first_inst (property w') \<and> first_inst_time (property w') = now
           else if \<not> new_walls (property w) then
             second_inst (property w') \<and> second_inst_time (property w') = now
           else third_inst (property w') \<and> third_inst_time (property w') = now)
        else if 0 < L then pc = IA_GetPartial None \<and> property w' = property w
        else property w' = property w))
   \<and> budget (snd (IndividualAssistance_step prg now2 Fired (IA_GetFull None, w2))) = budget w2
   \<and> budget (snd (IndividualAssistance_step prg now2 Fired (IA_GetPartial None, w2))) = budget w2"
  by (simp add: ia_settle_def ia_finish_def ia_tier_def ia_installment_def say_def get_def
                get_granted_def Let_def split: prod.splits)

theorem assistance_settlement_witness:
  "(let (pc, w') = IndividualAssistance_step demo_assistance 7 Fired
                     (IA_Timeout 0 5, demo_world)
    in pc = IA_GetPartial None \<and> assistance_request (ent w') = 50000 \<and>
       assistance_payout (ent w') = 30000 \<and> level (budget w') = 0 \<and>
       money_to_rebuild (ent w') = 31500)"
  using assistance_settlement [where w = demo_world and prg = demo_assistance and now = 7
                                 and t = 0 and d = 5 and ?now2.0 = 7 and ?w2.0 = demo_world]
  by (simp add: demo_world_def Owner_init_def Building_init_def Let_def split: prod.splits)

text \<open>
  C6. A HomeLoan process keeps as its cost the valuation of the first incomplete stage
  at its start and applies only when \<^verbatim>\<open>money_to_rebuild\<close> is below it. When its timeout
  fires, the loan amount is the smaller of the maximum loan and the cost less the
  savings (counted only while the plinth is not built), the claim payout and the
  assistance payout. The amount is stored as computed, also when it is not positive, and
  is added to \<^verbatim>\<open>money_to_rebuild\<close> and to \<^verbatim>\<open>debt\<close> exactly when it is positive.
\<close>

theorem loan_settlement:
  "(let rc = (if \<not> new_plinth (property w) then plinth_value (property w)
              else if \<not> new_walls (property w) then wall_value (property w)
              else roof_value (property w));
        (pc, w') = HomeLoan_step prg now Fired (HL_Start, w)
    in if money_to_rebuild (ent w) \<ge> rc then pc = HL_Done \<and> w' = w
       else pc = HL_Request (fresh (staff w)) rc)
   \<and> HomeLoan_step prg now2 Fired (HL_Request t cost, w2) =
        (HL_Timeout t cost (hl_duration prg), w2)
   \<and> (let saved = (if \<not> new_plinth (property w3) then savings (ent w3) else 0);
          amount = min (max_loan prg)
                       (cost - saved - claim_payout (ent w3) - assistance_payout (ent w3));
          (pc, w') = HomeLoan_step prg now3 Fired (HL_Timeout t cost d, w3)
      in loan_amount (ent w') = amount \<and>
         money_to_rebuild (ent w') =
           (if amount > 0 then money_to_rebuild (ent w3) + amount
            else money_to_rebuild (ent w3)) \<and>
         debt (ent w') = (if amount > 0 then debt (ent w3) + amount else debt (ent w3)))"
  by (auto simp: hl_submit_def hl_settle_def hl_finish_def hl_rebuild_cost_def say_def
                 request_def Let_def split: prod.splits)

theorem loan_settlement_witness:
  "(let (pc, w') = HomeLoan_step demo_loan 7 Fired (HL_Timeout 0 5000 5, demo_world)
    in loan_amount (ent w') = 100 \<and> money_to_rebuild (ent w') = 1600 \<and> debt (ent w') = 100)
   \<and> (let (pc, w') = HomeLoan_step demo_loan 7 Fired (HL_Timeout 0 1000 5, demo_world)
      in loan_amount (ent w') = - 500 \<and> money_to_rebuild (ent w') = 1500 \<and>
         debt (ent w') = 0)"
  using loan_settlement [where ?w3.0 = demo_world and prg = demo_loan and ?now3.0 = 7
                           and t = 0 and d = 5 and cost = 5000 and w = demo_world]
        loan_settlement [where ?w3.0 = demo_world and prg = demo_loan and ?now3.0 = 7
                           and t = 0 and d = 5 and cost = 1000 and w = demo_world]
  by (simp add: demo_world_def demo_loan_def Owner_init_def Building_init_def Let_def
           split: prod.splits)

text \<open>
  C7. An OwnersInsurance process whose entity has a coverage ratio of zero or less pays
  nothing and leaves the adjuster pool alone: \<^verbatim>\<open>money_to_rebuild\<close>, the claim payout (0
  for a new owner) and the pool are as before. Otherwise the deductible is the structure's
  value times the coverage ratio times the deductible rate; a damage value below it denies
  the claim at once, with nothing paid, the pool untouched and the receipt time recorded;
  else an adjuster is requested, and when the timeout fires the payout is the damage
  value less the deductible, it is added to \<^verbatim>\<open>money_to_rebuild\<close>, the receipt time is
  recorded and the adjuster is released.
\<close>

theorem insurance_settlement:
  "(let da = bvalue (property w) * insurance (ent w) * deductible prg;
        (pc, w') = OwnersInsurance_step prg now Fired (OI_Start, w)
    in staff w' = (if insurance (ent w) \<le> 0 \<or> damage_value (property w) < da
                   then staff w else snd (request (staff w))) \<and>
       money_to_rebuild (ent w') = money_to_rebuild (ent w) \<and>
       claim_payout (ent w') = claim_payout (ent w) \<and>
       (if insurance (ent w) \<le> 0 then pc = OI_Done \<and> claim_get (ent w') = claim_get (ent w)
        else if damage_value (property w) < da then
          pc = OI_Done \<and> claim_get (ent w') = Some now
        else pc = OI_Request (fresh (staff w)) da))
   \<and> claim_payout (Owner_init ws ins sav) = 0
   \<and> OwnersInsurance_step prg now2 Fired (OI_Request t a, w2) =
        (OI_Timeout t a (oi_duration prg), w2)
   \<and> (let (pc, w') = OwnersInsurance_step prg now3 Fired (OI_Timeout t a d, w3)
      in claim_payout (ent w') = damage_value (property w3) - a \<and>
         money_to_rebuild (ent w') =
           money_to_rebuild (ent w3) + (damage_value (property w3) - a) \<and>
         claim_get (ent w') = Some now3 \<and>
         staff w' = release t (staff w3))"
  by (simp add: oi_submit_def oi_settle_def oi_finish_def say_def request_def Owner_init_def
                Let_def split: prod.splits)

theorem insurance_settlement_witness:
  "fst (OwnersInsurance_step demo_insurance 2 Fired (OI_Start, demo_world)) = OI_Request 0 300
   \<and> (let (pc, w') = OwnersInsurance_step demo_insurance 7 Fired
                       (OI_Timeout 0 300 5, demo_world)
      in claim_payout (ent w') = 5700 \<and> money_to_rebuild (ent w') = 7200 \<and>
         claim_get (ent w') = Some 7)
   \<and> (let w0 = demo_world\<lparr>ent := (ent demo_world)\<lparr>insurance := 0\<rparr>\<rparr>;
          (pc, w') = OwnersInsurance_step demo_insurance 2 Fired (OI_Start, w0)
      in pc = OI_Done \<and> staff w' = staff w0 \<and> claim_payout (ent w') = 0 \<and>
         money_to_rebuild (ent w') = 1500)"
  using insurance_settlement [where w = demo_world and prg = demo_insurance and now = 2
                                and ?w3.0 = demo_world and ?now3.0 = 7 and t = 0 and a = 300
                                and d = 5]
        insurance_settlement [where w = "demo_world\<lparr>ent := (ent demo_world)\<lparr>insurance := 0\<rparr>\<rparr>"
                                and prg = demo_insurance and now = 2]
  by (simp add: demo_world_def demo_insurance_def idle_pool_def Owner_init_def
                Building_init_def oi_submit_def oi_settle_def oi_finish_def say_def
                request_def admit_head_def Let_def split: prod.splits)


subsection \<open>Stage flags\<close>

text \<open>
  C8. The three stage-complete flags of a structure are false when the building is
  constructed, and over any history of program steps a flag that is true stays true.
\<close>

theorem stage_flags_monotonic:
  "\<not> new_plinth (Building_init pv wv rv) \<and> \<not> new_walls (Building_init pv wv rv) \<and>
   \<not> new_roof (Building_init pv wv rv) \<and>
   (history b b' \<longrightarrow>
      (new_plinth b \<longrightarrow> new_plinth b') \<and> (new_walls b \<longrightarrow> new_walls b') \<and>
      (new_roof b \<longrightarrow> new_roof b'))"
  using history_kept [of b b'] by (simp add: Building_init_def flags_kept_def)

theorem stage_flags_monotonic_witness:
  "\<not> new_plinth (property working_world) \<and>
   new_plinth (property (snd (RepairProgram_step demo_repair 3 Fired
                                (R_Timeout [0, 1, 2, 3] 2, working_world)))) \<and>
   new_plinth (property (snd (PermitProgram_step demo_permit 9 Fired
      (PP_Timeout 0 5, snd (RepairProgram_step demo_repair 3 Fired
                                (R_Timeout [0, 1, 2, 3] 2, working_world))))))"
proof -
  let ?w1 = "snd (RepairProgram_step demo_repair 3 Fired
                    (R_Timeout [0, 1, 2, 3] 2, working_world))"
  let ?w2 = "snd (PermitProgram_step demo_permit 9 Fired (PP_Timeout 0 5, ?w1))"
  have h: "history (property ?w1) (property ?w2)"
    by (rule history_step [OF history_start by_permit])
  have a: "\<not> new_plinth (property working_world)"
    by (simp add: working_world_def demo_world_def Building_init_def)
  have b: "new_plinth (property ?w1)"
    by (simp add: working_world_def demo_world_def demo_repair_def Owner_init_def
          rp_complete_def rp_plinth_def rp_walls_def rp_roof_def say_def rp_finish_def Let_def)
  have c: "new_plinth (property ?w2)"
    using stage_flags_monotonic [of 0 0 0 "property ?w1" "property ?w2"] h b by blast
  from a b c show ?thesis by blast
qed

subsection \<open>Interruption\<close>

text \<open>
  C1, as amended. An interruption delivered to an IndividualAssistance, OwnersInsurance,
  HomeLoan or Repair process suspended inside its \<^verbatim>\<open>try\<close> statement makes the process
  record the give-up sentence with the cause (when the entity keeps a story) and leave
  the \<^verbatim>\<open>try\<close> statement; it releases nothing: the pools and the containers are exactly as
  they were when the interruption arrived, so a slot the process holds stays held.
\<close>

theorem interruption_releases_nothing:
  "(ia_suspended pc1 \<longrightarrow>
      (let (pc', w') = IndividualAssistance_step prg1 now (Interrupt c) (pc1, w)
       in ent w' = say (GaveUpNRA c) (ent w) \<and> staff w' = staff w \<and> budget w' = budget w \<and>
          pc' = (if ia_callbacks prg1 then IA_Callbacks else IA_Done)))
   \<and> (oi_suspended pc2 \<longrightarrow>
      (let (pc', w') = OwnersInsurance_step prg2 now (Interrupt c) (pc2, w)
       in ent w' = say (GaveUpClaim c) (ent w) \<and> staff w' = staff w \<and> budget w' = budget w \<and>
          pc' = (if oi_callbacks prg2 then OI_Callbacks else OI_Done)))
   \<and> (hl_suspended pc3 \<longrightarrow>
      (let (pc', w') = HomeLoan_step prg3 now (Interrupt c) (pc3, w)
       in ent w' = say (GaveUpLoan c) (ent w) \<and> staff w' = staff w \<and> budget w' = budget w \<and>
          pc' = (if hl_callbacks prg3 then HL_Callbacks else HL_Done)))
   \<and> (rp_suspended pc4 \<longrightarrow>
      (let (pc', w') = RepairProgram_step prg4 now (Interrupt c) (pc4, w)
       in ent w' = say (GaveUpRebuild c) (ent w) \<and> skilled w' = skilled w \<and>
          stock w' = stock w \<and>
          pc' = (if rp_callbacks prg4 then R_Raised NameError else R_Done)))"
  by (simp add: ia_interrupted oi_interrupted hl_interrupted rp_interrupted
                ia_finish_def oi_finish_def hl_finish_def rp_finish_def)

theorem interruption_releases_nothing_witness:
  "(let (pc', w') = IndividualAssistance_step demo_assistance 3 (Interrupt 3)
                      (IA_Timeout 0 5, demo_world)
    in story (ent w') = [GaveUpNRA 3] \<and> staff w' = staff demo_world \<and> pc' = IA_Done)
   \<and> (let (pc', w') = OwnersInsurance_step demo_insurance 3 (Interrupt 3)
                        (OI_Request 0 300, demo_world)
      in story (ent w') = [GaveUpClaim 3] \<and> staff w' = staff demo_world \<and> pc' = OI_Done)
   \<and> (let (pc', w') = HomeLoan_step demo_loan 3 (Interrupt 3)
                        (HL_Timeout 0 1000 5, demo_world)
      in story (ent w') = [GaveUpLoan 3] \<and> staff w' = staff demo_world \<and> pc' = HL_Done)
   \<and> (let (pc', w') = RepairProgram_step demo_repair 3 (Interrupt 3)
                        (R_Timeout [0, 1, 2, 3] 2, working_world)
      in story (ent w') = [GaveUpRebuild 3] \<and> users (skilled w') = [0, 1, 2, 3] \<and>
         pc' = R_Done)"
  using interruption_releases_nothing
          [where ?pc1.0 = "IA_Timeout 0 5" and ?prg1.0 = demo_assistance and now = 3 and c = 3
             and w = demo_world and ?pc2.0 = "OI_Request 0 300" and ?prg2.0 = demo_insurance
             and ?pc3.0 = "HL_Timeout 0 1000 5" and ?prg3.0 = demo_loan
             and ?pc4.0 = "R_Request [0]" and ?prg4.0 = demo_repair]
        interruption_releases_nothing
          [where ?pc4.0 = "R_Timeout [0, 1, 2, 3] 2" and ?prg4.0 = demo_repair and now = 3
             and c = 3 and w = working_world and ?pc1.0 = IA_Start and ?pc2.0 = OI_Start
             and ?pc3.0 = HL_Start]
  by (simp add: working_world_def demo_world_def demo_repair_def demo_assistance_def
                demo_insurance_def demo_loan_def Owner_init_def say_def split: prod.splits)

text \<open>
  C1 as stated fails: an IndividualAssistance process on an idle pool is granted its
  slot and is interrupted during its timeout; it gives up and ends, and the pool still
  counts one holder where it counted none before the request.
\<close>

theorem interrupted_assistance_keeps_slot:
  "count (staff demo_world) = 0 \<and>
   (let (pc, w') = drive (IndividualAssistance_step demo_assistance)
                     [(0, Fired), (0, Fired), (3, Interrupt 3)] (IA_Start, demo_world)
    in pc = IA_Done \<and> story (ent w') = [SubmittedNRA (Some 0), GaveUpNRA 3] \<and>
       count (staff w') = 1)"
  by (simp add: drive_def demo_world_def demo_assistance_def idle_pool_def Owner_init_def
        Building_init_def count_def request_def admit_head_def say_def ia_finish_def Let_def)


subsection \<open>Repair\<close>




text \<open>
  C3, as amended. When a checked material is short (the checks run in the order stone,
  brick, timber, rebar, cement, CGI, sand, aggregate), or all are in stock and
  \<^verbatim>\<open>money_to_rebuild\<close> is below the stage cost, the Repair ends in its first step,
  before any suspension, and changes nothing but the entity's story: no slot, no
  withdrawal, \<^verbatim>\<open>money_to_rebuild\<close> and the stage flags as before. The story gets one
  sentence only when the entity keeps a story; for a shortage of any material but timber
  the sentence names the first short material, for a shortage of money it says so.
\<close>

theorem repair_aborts_unchanged:
  "(first_short prg w = Some m \<longrightarrow>
      (let (pc', w') = RepairProgram_step prg now Fired (R_Start, w)
       in pc' = R_Done \<and> w' = w\<lparr>ent := (ent w)\<lparr>story := story (ent w')\<rparr>\<rparr> \<and>
          (m \<noteq> Timber \<longrightarrow>
             story (ent w') =
               (if write_story (ent w)
                then story (ent w) @ [InsufficientMaterial (material_word m)]
                else story (ent w)))))
   \<and> (first_short prg w = None \<and> stage_cost prg (property w) = Some cost \<and>
        money_to_rebuild (ent w) < cost \<longrightarrow>
      (let (pc', w') = RepairProgram_step prg now Fired (R_Start, w)
       in pc' = R_Done \<and> w' = w\<lparr>ent := (ent w)\<lparr>story := story (ent w')\<rparr>\<rparr> \<and>
          story (ent w') =
            (if write_story (ent w) then story (ent w) @ [UnableToGetMoney]
             else story (ent w))))"
  by (auto simp: rp_begin_short rp_begin_poor say_def)

theorem repair_aborts_unchanged_witness:
  "(let w = demo_world\<lparr>stock := (stock demo_world)(Cement := \<lparr> level = 1 \<rparr>)\<rparr>;
        (pc', w') = RepairProgram_step demo_repair 1 Fired (R_Start, w)
    in pc' = R_Done \<and> story (ent w') = [InsufficientMaterial ''cement''] \<and>
       skilled w' = skilled w \<and> stock w' = stock w \<and>
       money_to_rebuild (ent w') = 1500 \<and> \<not> new_plinth (property w'))
   \<and> (let w = demo_world\<lparr>ent := (ent demo_world)\<lparr>money_to_rebuild := 999\<rparr>\<rparr>;
          (pc', w') = RepairProgram_step demo_repair 1 Fired (R_Start, w)
      in pc' = R_Done \<and> story (ent w') = [UnableToGetMoney] \<and> skilled w' = skilled w \<and>
         money_to_rebuild (ent w') = 999)"
  using repair_aborts_unchanged
          [where prg = demo_repair and now = 1 and m = Cement
             and w = "demo_world\<lparr>stock := (stock demo_world)(Cement := \<lparr> level = 1 \<rparr>)\<rparr>"]
        repair_aborts_unchanged
          [where prg = demo_repair and now = 1 and cost = 1000
             and w = "demo_world\<lparr>ent := (ent demo_world)\<lparr>money_to_rebuild := 999\<rparr>\<rparr>"]
  by (simp add: demo_world_def demo_repair_def Owner_init_def Building_init_def idle_pool_def
                first_short_def checked_def stage_cost_def rp_begin_def rp_shortage_def
                say_def Let_def split: prod.splits)

text \<open>
  C3 as stated fails: for an entity that keeps no story a shortage of stone ends the
  Repair with the world exactly as it was; which material was short is recorded nowhere.
\<close>

theorem shortage_without_story_records_nothing:
  "level (stock short_stone Stone) < needed demo_repair Stone \<and>
   RepairProgram_step demo_repair 1 Fired (R_Start, short_stone) = (R_Done, short_stone) \<and>
   story (ent short_stone) = []"
  by (simp add: short_stone_def demo_world_def demo_repair_def Owner_init_def
                rp_begin_def rp_shortage_def say_def)




text \<open>
  The sentence written by the timber check names stone (technical.py 440-449); the
  amended C3 says nothing about it.
\<close>

lemma timber_shortage_sentence:
  "(let prg = demo_repair\<lparr>mat_req := (\<lambda>row. if row = ''Wood'' then 20 else 0)\<rparr>
    in first_short prg demo_world = Some Timber \<and>
       story (ent (snd (RepairProgram_step prg 1 Fired (R_Start, demo_world)))) =
         [InsufficientMaterial ''stone''])"
  by (simp add: demo_world_def demo_repair_def Owner_init_def first_short_def checked_def
                rp_begin_def rp_shortage_def say_def Let_def)

end
